theory Spec2Isabelle
  imports Main
begin

section \<open>The voice session of the home screen (app/(tabs)/index.tsx)\<close>

text \<open>
  The screen component keeps two pieces of React state that matter here: the session record
  \<open>voiceState\<close> and the display transcript \<open>recognizedText\<close>. Every handler of the source
  is a function from the screen's state to the screen's state. Calls into the world outside
  the component (console, alert channel, pulse animation, the two speech back ends) are
  written, in call order, to a trace carried by the state.
\<close>

subsection \<open>Data\<close>

text \<open>The interface \<open>VoiceState\<close>, field by field. The field \<open>end\<close> is spelled \<open>end_f\<close>.\<close>

record VoiceState =
  recognized :: string
  pitch :: string
  error :: string
  end_f :: string
  started :: bool
  results :: "string list"
  partialResults :: "string list"

text \<open>The mark the native handlers store in \<open>recognized\<close> and \<open>end\<close>: the one character
  U+221A, here as its three UTF-8 bytes.\<close>

definition CHECK_MARK :: string where
  "CHECK_MARK = [CHR 0xE2, CHR 0x88, CHR 0x9A]"

text \<open>The browser recognition object as the effect hook configures it.\<close>

record recognition =
  continuous :: bool
  interimResults :: bool
  lang :: string

text \<open>Calls that leave the component. Console entries keep their label only.\<close>

datatype effect =
    ConsoleLog string
  | ConsoleError string
  | AlertAlert string string
  | StartPulseAnimation
  | StopPulseAnimation
  | WebRecognitionStart
  | WebRecognitionStop
  | VoiceStart string
  | VoiceStop

record screen =
  voiceState :: VoiceState
  recognizedText :: string
  webRecognition :: "recognition option"
  trace :: "effect list"

text \<open>Payloads of the native events: \<open>SpeechErrorEvent\<close> has an optional \<open>error\<close> object with
  optional \<open>code\<close> and \<open>message\<close>; \<open>SpeechResultsEvent\<close> has an optional \<open>value\<close> list.\<close>

record SpeechError =
  code :: "string option"
  message :: "string option"

text \<open>Payload of the browser's \<open>onresult\<close>: each result carries its \<open>isFinal\<close> flag and its
  alternatives, of which the handler reads only the transcript of alternative 0 (the Web
  Speech API delivers at least one alternative per result).\<close>

record SpeechRecognitionResult =
  isFinal :: bool
  item0_transcript :: string

record SpeechRecognitionEvent =
  resultIndex :: nat
  event_results :: "SpeechRecognitionResult list"

text \<open>What the component reads from its platform: \<open>Platform.OS === 'web'\<close>, the probe
  \<open>'webkitSpeechRecognition' in window\<close>, and the built-in \<open>JSON.stringify\<close> at the error
  object (the order in which it prints the object's properties is the native module's, so
  it is a parameter).\<close>

record platform =
  isWeb :: bool
  webkitSpeechRecognition_in_window :: bool
  JSON_stringify :: "SpeechError option \<Rightarrow> string"

text \<open>A thrown JavaScript value.\<close>

datatype exn = Exn string

subsection \<open>State setters and effects\<close>

definition emit :: "effect \<Rightarrow> screen \<Rightarrow> screen" where
  "emit x w = w\<lparr>trace := trace w @ [x]\<rparr>"

definition setVoiceState :: "(VoiceState \<Rightarrow> VoiceState) \<Rightarrow> screen \<Rightarrow> screen" where
  "setVoiceState f w = w\<lparr>voiceState := f (voiceState w)\<rparr>"

definition setRecognizedText :: "string \<Rightarrow> screen \<Rightarrow> screen" where
  "setRecognizedText t w = w\<lparr>recognizedText := t\<rparr>"

definition setWebRecognition :: "recognition \<Rightarrow> screen \<Rightarrow> screen" where
  "setWebRecognition r w = w\<lparr>webRecognition := Some r\<rparr>"

definition startPulseAnimation :: "screen \<Rightarrow> screen" where
  "startPulseAnimation w = emit StartPulseAnimation w"

definition stopPulseAnimation :: "screen \<Rightarrow> screen" where
  "stopPulseAnimation w = emit StopPulseAnimation w"

text \<open>The initial values of the \<open>useState\<close> calls; the trace starts empty.\<close>

definition initial_voiceState :: VoiceState where
  "initial_voiceState =
     \<lparr>recognized = '''', pitch = '''', error = '''', end_f = '''', started = False,
      results = [], partialResults = []\<rparr>"

definition initial_screen :: screen where
  "initial_screen =
     \<lparr>voiceState = initial_voiceState, recognizedText = '''', webRecognition = None,
      trace = []\<rparr>"

subsection \<open>Native handlers\<close>

definition onSpeechStart :: "screen \<Rightarrow> screen" where
  "onSpeechStart w =
     (let w1 = emit (ConsoleLog ''onSpeechStart: '') w;
          w2 = setVoiceState (\<lambda>prev. prev\<lparr>started := True\<rparr>) w1
      in startPulseAnimation w2)"

definition onSpeechRecognized :: "screen \<Rightarrow> screen" where
  "onSpeechRecognized w =
     (let w1 = emit (ConsoleLog ''onSpeechRecognized: '') w
      in setVoiceState (\<lambda>prev. prev\<lparr>recognized := CHECK_MARK\<rparr>) w1)"

definition onSpeechEnd :: "screen \<Rightarrow> screen" where
  "onSpeechEnd w =
     (let w1 = emit (ConsoleLog ''onSpeechEnd: '') w;
          w2 = setVoiceState (\<lambda>prev. prev\<lparr>end_f := CHECK_MARK, started := False\<rparr>) w1
      in stopPulseAnimation w2)"

text \<open>The alert text \<open>e.error?.message || 'Unknown error'\<close>: an absent or empty message
  gives the default.\<close>

definition error_message_or_unknown :: "SpeechError option \<Rightarrow> string" where
  "error_message_or_unknown e =
     (case e of
        None \<Rightarrow> ''Unknown error''
      | Some err \<Rightarrow>
          (case message err of
             None \<Rightarrow> ''Unknown error''
           | Some m \<Rightarrow> if m = [] then ''Unknown error'' else m))"

definition onSpeechError :: "platform \<Rightarrow> SpeechError option \<Rightarrow> screen \<Rightarrow> screen" where
  "onSpeechError p e w =
     (let w1 = emit (ConsoleLog ''onSpeechError: '') w;
          w2 = setVoiceState (\<lambda>prev. prev\<lparr>error := JSON_stringify p e, started := False\<rparr>) w1;
          w3 = stopPulseAnimation w2
      in emit (AlertAlert ''Speech Recognition Error''
                 (''Error: '' @ error_message_or_unknown e)) w3)"

definition onSpeechResults :: "string list option \<Rightarrow> screen \<Rightarrow> screen" where
  "onSpeechResults v w =
     (let w1 = emit (ConsoleLog ''onSpeechResults: '') w
      in case v of
           None \<Rightarrow> w1
         | Some [] \<Rightarrow> w1
         | Some (x # xs) \<Rightarrow>
             setRecognizedText x (setVoiceState (\<lambda>prev. prev\<lparr>results := x # xs\<rparr>) w1))"

definition onSpeechPartialResults :: "string list option \<Rightarrow> screen \<Rightarrow> screen" where
  "onSpeechPartialResults v w =
     (let w1 = emit (ConsoleLog ''onSpeechPartialResults: '') w
      in case v of
           None \<Rightarrow> w1
         | Some xs \<Rightarrow> setVoiceState (\<lambda>prev. prev\<lparr>partialResults := xs\<rparr>) w1)"

definition onSpeechVolumeChanged :: "string \<Rightarrow> screen \<Rightarrow> screen" where
  "onSpeechVolumeChanged v w =
     (let w1 = emit (ConsoleLog ''onSpeechVolumeChanged: '') w
      in setVoiceState (\<lambda>prev. prev\<lparr>pitch := v\<rparr>) w1)"

subsection \<open>Browser handlers\<close>

definition recognition_onstart :: "screen \<Rightarrow> screen" where
  "recognition_onstart w =
     startPulseAnimation (setVoiceState (\<lambda>prev. prev\<lparr>started := True\<rparr>) w)"

text \<open>The \<open>for\<close> loop of \<open>onresult\<close>, from index \<open>i\<close> to the end of the result list, with
  its two accumulators.\<close>

function scan_results ::
  "SpeechRecognitionResult list \<Rightarrow> nat \<Rightarrow> string \<Rightarrow> string \<Rightarrow> string \<times> string" where
  "scan_results rs i interimTranscript finalTranscript =
     (if i < length rs then
        (let transcript = item0_transcript (rs ! i)
         in if isFinal (rs ! i)
            then scan_results rs (i + 1) interimTranscript (finalTranscript @ transcript)
            else scan_results rs (i + 1) (interimTranscript @ transcript) finalTranscript)
      else (interimTranscript, finalTranscript))"
  by pat_completeness auto
termination
  by (relation "measure (\<lambda>(rs, i, a, b). length rs - i)") auto

declare scan_results.simps [simp del]

definition recognition_onresult :: "SpeechRecognitionEvent \<Rightarrow> screen \<Rightarrow> screen" where
  "recognition_onresult ev w =
     (case scan_results (event_results ev) (resultIndex ev) [] [] of
        (interimTranscript, finalTranscript) \<Rightarrow>
          (let w1 = (if finalTranscript \<noteq> []
                     then setVoiceState (\<lambda>prev. prev\<lparr>results := [finalTranscript]\<rparr>)
                            (setRecognizedText finalTranscript w)
                     else w)
           in if interimTranscript \<noteq> []
              then setVoiceState (\<lambda>prev. prev\<lparr>partialResults := [interimTranscript]\<rparr>) w1
              else w1))"

definition recognition_onend :: "screen \<Rightarrow> screen" where
  "recognition_onend w =
     stopPulseAnimation (setVoiceState (\<lambda>prev. prev\<lparr>started := False\<rparr>) w)"

definition recognition_onerror :: "string \<Rightarrow> screen \<Rightarrow> screen" where
  "recognition_onerror err w =
     (let w1 = emit (ConsoleError ''Speech recognition error:'') w;
          w2 = setVoiceState (\<lambda>prev. prev\<lparr>started := False, error := err\<rparr>) w1;
          w3 = stopPulseAnimation w2
      in emit (AlertAlert ''Speech Recognition Error'' (''Error: '' @ err)) w3)"

subsection \<open>The effect hook: choosing the back end\<close>

text \<open>On the web the hook builds the recognition object when the window offers one and
  alerts otherwise; off the web it only wires the native callbacks (the handlers above),
  which changes no state of the component. The clean-up it returns runs at unmount.\<close>

definition useEffect_init :: "platform \<Rightarrow> screen \<Rightarrow> screen" where
  "useEffect_init p w =
     (if isWeb p then
        (if webkitSpeechRecognition_in_window p
         then setWebRecognition
                \<lparr>continuous = True, interimResults = True, lang = ''en-US''\<rparr> w
         else emit (AlertAlert ''Speech Recognition Not Supported''
                 ''Your browser does not support speech recognition. Please use Chrome or Safari.'')
                w)
      else w)"

subsection \<open>Exceptions: statements that may throw, and try/catch\<close>

text \<open>A statement returns the thrown value, if any, and the state it leaves; what was done
  before a throw stays done. A back-end primitive is recorded in the trace when invoked and
  then throws or returns as its environment decides (the argument \<open>r\<close>).\<close>

definition invoke :: "effect \<Rightarrow> exn option \<Rightarrow> screen \<Rightarrow> exn option \<times> screen" where
  "invoke prim r w = (r, emit prim w)"

definition try_catch ::
  "(screen \<Rightarrow> exn option \<times> screen) \<Rightarrow> (exn \<Rightarrow> screen \<Rightarrow> exn option \<times> screen) \<Rightarrow>
   screen \<Rightarrow> exn option \<times> screen" where
  "try_catch body handler w =
     (case body w of
        (None, w') \<Rightarrow> (None, w')
      | (Some e, w') \<Rightarrow> handler e w')"

subsection \<open>start and stop\<close>

text \<open>The two setter calls that open \<open>startListening\<close>.\<close>

definition reset_session :: "screen \<Rightarrow> screen" where
  "reset_session w =
     (let w1 = setVoiceState
                 (\<lambda>_. \<lparr>recognized = '''', pitch = '''', error = '''', end_f = '''',
                       started = False, results = [], partialResults = []\<rparr>) w
      in setRecognizedText '''' w1)"

text \<open>The \<open>try\<close> block of \<open>startListening\<close> and its \<open>catch\<close>.\<close>

definition start_body :: "platform \<Rightarrow> exn option \<Rightarrow> screen \<Rightarrow> exn option \<times> screen" where
  "start_body p r w =
     (if isWeb p then
        (case webRecognition w of
           Some rec \<Rightarrow> invoke WebRecognitionStart r w
         | None \<Rightarrow> (None, emit (AlertAlert ''Error'' ''Speech recognition not available'') w))
      else invoke (VoiceStart ''en-US'') r w)"

definition start_catch :: "exn \<Rightarrow> screen \<Rightarrow> exn option \<times> screen" where
  "start_catch e w =
     (let w1 = emit (ConsoleError ''Error starting voice recognition:'') w
      in (None, emit (AlertAlert ''Error''
            ''Failed to start voice recognition. Please check microphone permissions.'') w1))"

definition startListening :: "platform \<Rightarrow> exn option \<Rightarrow> screen \<Rightarrow> exn option \<times> screen" where
  "startListening p r w = try_catch (start_body p r) start_catch (reset_session w)"

definition stop_body :: "platform \<Rightarrow> exn option \<Rightarrow> screen \<Rightarrow> exn option \<times> screen" where
  "stop_body p r w =
     (if isWeb p then
        (case webRecognition w of
           Some rec \<Rightarrow> invoke WebRecognitionStop r w
         | None \<Rightarrow> (None, w))
      else invoke VoiceStop r w)"

definition stop_catch :: "exn \<Rightarrow> screen \<Rightarrow> exn option \<times> screen" where
  "stop_catch e w = (None, emit (ConsoleError ''Error stopping voice recognition:'') w)"

definition stopListening :: "platform \<Rightarrow> exn option \<Rightarrow> screen \<Rightarrow> exn option \<times> screen" where
  "stopListening p r w = try_catch (stop_body p r) stop_catch w"

subsection \<open>Events and runs\<close>

text \<open>The callbacks each back end delivers, and the handler the effect hook wires to each.\<close>

datatype backend_event =
    SpeechStart
  | SpeechRecognized
  | SpeechEnd
  | SpeechError "SpeechError option"
  | SpeechResults "string list option"
  | SpeechPartialResults "string list option"
  | SpeechVolumeChanged string
  | WebStart
  | WebResult SpeechRecognitionEvent
  | WebEnd
  | WebError string

fun handle_event :: "platform \<Rightarrow> backend_event \<Rightarrow> screen \<Rightarrow> screen" where
  "handle_event p SpeechStart w = onSpeechStart w"
| "handle_event p SpeechRecognized w = onSpeechRecognized w"
| "handle_event p SpeechEnd w = onSpeechEnd w"
| "handle_event p (SpeechError e) w = onSpeechError p e w"
| "handle_event p (SpeechResults v) w = onSpeechResults v w"
| "handle_event p (SpeechPartialResults v) w = onSpeechPartialResults v w"
| "handle_event p (SpeechVolumeChanged v) w = onSpeechVolumeChanged v w"
| "handle_event p WebStart w = recognition_onstart w"
| "handle_event p (WebResult ev) w = recognition_onresult ev w"
| "handle_event p WebEnd w = recognition_onend w"
| "handle_event p (WebError err) w = recognition_onerror err w"

fun run_events :: "platform \<Rightarrow> backend_event list \<Rightarrow> screen \<Rightarrow> screen" where
  "run_events p [] w = w"
| "run_events p (e # es) w = run_events p es (handle_event p e w)"

fun is_end_event :: "backend_event \<Rightarrow> bool" where
  "is_end_event SpeechEnd = True"
| "is_end_event WebEnd = True"
| "is_end_event _ = False"

fun is_error_event :: "backend_event \<Rightarrow> bool" where
  "is_error_event (SpeechError e) = True"
| "is_error_event (WebError err) = True"
| "is_error_event _ = False"

text \<open>What can happen to the mounted screen: a press that starts, a press that stops (each
  with what the back end's primitive does if it is reached), or a callback.\<close>

datatype action =
    Start "exn option"
  | Stop "exn option"
  | Event backend_event

fun step :: "platform \<Rightarrow> action \<Rightarrow> screen \<Rightarrow> screen" where
  "step p (Start r) w = snd (startListening p r w)"
| "step p (Stop r) w = snd (stopListening p r w)"
| "step p (Event e) w = handle_event p e w"

fun run :: "platform \<Rightarrow> action list \<Rightarrow> screen \<Rightarrow> screen" where
  "run p [] w = w"
| "run p (a # as) w = run p as (step p a w)"

text \<open>The start primitives of the two back ends, as they appear in the trace.\<close>

fun is_start_primitive :: "effect \<Rightarrow> bool" where
  "is_start_primitive WebRecognitionStart = True"
| "is_start_primitive (VoiceStart l) = True"
| "is_start_primitive _ = False"

definition start_primitive :: "platform \<Rightarrow> effect" where
  "start_primitive p = (if isWeb p then WebRecognitionStart else VoiceStart ''en-US'')"

subsection \<open>The browser adapter in the specification's vocabulary\<close>

text \<open>
  Following the specification's words, not the code: the newly available range of an
  \<open>onresult\<close> invocation runs from the reported resume index to the end of the result list;
  \<open>F\<close> is the concatenation of the transcripts of its final entries, \<open>I\<close> that of its
  interim entries. The adapter emits a final-results event carrying \<open>[F]\<close> only if \<open>F\<close> is
  non-empty, and a partial-results event carrying \<open>[I]\<close> only if \<open>I\<close> is non-empty. The two
  logical events are written with the native callbacks' constructors, since the native
  adapter maps its callbacks one-to-one onto the logical events.
\<close>

definition spec_new_range :: "SpeechRecognitionEvent \<Rightarrow> SpeechRecognitionResult list" where
  "spec_new_range ev = drop (resultIndex ev) (event_results ev)"

definition spec_final_concat :: "SpeechRecognitionEvent \<Rightarrow> string" where
  "spec_final_concat ev = concat (map item0_transcript (filter isFinal (spec_new_range ev)))"

definition spec_interim_concat :: "SpeechRecognitionEvent \<Rightarrow> string" where
  "spec_interim_concat ev =
     concat (map item0_transcript (filter (\<lambda>r. \<not> isFinal r) (spec_new_range ev)))"

definition spec_browser_emits :: "string \<Rightarrow> string \<Rightarrow> backend_event list" where
  "spec_browser_emits F I =
     (if F \<noteq> [] then [SpeechResults (Some [F])] else []) @
     (if I \<noteq> [] then [SpeechPartialResults (Some [I])] else [])"

subsection \<open>Concrete platforms, sessions and events\<close>

text \<open>A native platform, a browser with the speech API, and a browser without it.\<close>

definition demo_platform :: platform where
  "demo_platform =
     \<lparr>isWeb = False, webkitSpeechRecognition_in_window = False,
      JSON_stringify = (\<lambda>e. ''{}'')\<rparr>"

definition demo_web_platform :: platform where
  "demo_web_platform =
     \<lparr>isWeb = True, webkitSpeechRecognition_in_window = True,
      JSON_stringify = (\<lambda>e. ''{}'')\<rparr>"

definition demo_disabled_platform :: platform where
  "demo_disabled_platform =
     \<lparr>isWeb = True, webkitSpeechRecognition_in_window = False,
      JSON_stringify = (\<lambda>e. ''{}'')\<rparr>"

text \<open>A native session: start, two partial results, one final result.\<close>

definition demo_session :: "backend_event list" where
  "demo_session =
     [SpeechStart, SpeechPartialResults (Some [''book a'']),
      SpeechPartialResults (Some [''book a table'']),
      SpeechResults (Some [''book a table please''])]"

text \<open>One \<open>onresult\<close> invocation with a final entry \<open>hello\<close> and an interim entry \<open>wor\<close>.\<close>

definition demo_result_event :: SpeechRecognitionEvent where
  "demo_result_event =
     \<lparr>resultIndex = 0,
      event_results = [\<lparr>isFinal = True, item0_transcript = ''hello''\<rparr>,
                       \<lparr>isFinal = False, item0_transcript = ''wor''\<rparr>]\<rparr>"

text \<open>Two later invocations: one that brings only an interim entry, one that brings the
  final entry \<open>world\<close>; both resume at index 1.\<close>

definition demo_interim_event :: SpeechRecognitionEvent where
  "demo_interim_event =
     \<lparr>resultIndex = 1,
      event_results = [\<lparr>isFinal = True, item0_transcript = ''hello''\<rparr>,
                       \<lparr>isFinal = False, item0_transcript = ''world''\<rparr>]\<rparr>"

definition demo_final_event :: SpeechRecognitionEvent where
  "demo_final_event =
     \<lparr>resultIndex = 1,
      event_results = [\<lparr>isFinal = True, item0_transcript = ''hello''\<rparr>,
                       \<lparr>isFinal = True, item0_transcript = ''world''\<rparr>]\<rparr>"

section \<open>Properties\<close>

subsection \<open>Frames of the setters, of start and of the handlers\<close>

lemmas setter_defs = emit_def setVoiceState_def setRecognizedText_def setWebRecognition_def
  startPulseAnimation_def stopPulseAnimation_def

lemmas handler_defs = onSpeechStart_def onSpeechRecognized_def onSpeechEnd_def onSpeechError_def
  onSpeechResults_def onSpeechPartialResults_def onSpeechVolumeChanged_def
  recognition_onstart_def recognition_onresult_def recognition_onend_def recognition_onerror_def

lemma run_events_append:
  "run_events p (xs @ ys) w = run_events p ys (run_events p xs w)"
  by (induction xs arbitrary: w) simp_all

lemma reset_session_voiceState: "voiceState (reset_session w) = initial_voiceState"
  by (simp add: reset_session_def initial_voiceState_def setter_defs)

lemma reset_session_recognizedText: "recognizedText (reset_session w) = []"
  by (simp add: reset_session_def setter_defs)

lemma reset_session_other:
  "webRecognition (reset_session w) = webRecognition w" "trace (reset_session w) = trace w"
  by (simp_all add: reset_session_def setter_defs)

lemma reset_session_idem:
  "voiceState w = initial_voiceState \<Longrightarrow> recognizedText w = [] \<Longrightarrow> reset_session w = w"
  by (simp add: reset_session_def setter_defs initial_voiceState_def)

lemma start_body_voiceState:
  "voiceState (snd (start_body p r w)) = voiceState w"
  "recognizedText (snd (start_body p r w)) = recognizedText w"
  "webRecognition (snd (start_body p r w)) = webRecognition w"
  by (simp_all add: start_body_def invoke_def emit_def split: option.splits)

lemma start_catch_voiceState:
  "voiceState (snd (start_catch e w)) = voiceState w"
  "recognizedText (snd (start_catch e w)) = recognizedText w"
  "webRecognition (snd (start_catch e w)) = webRecognition w"
  "fst (start_catch e w) = None"
  by (simp_all add: start_catch_def emit_def)

lemma try_catch_start_frame:
  "voiceState (snd (try_catch (start_body p r) start_catch w)) = voiceState w"
  "recognizedText (snd (try_catch (start_body p r) start_catch w)) = recognizedText w"
  "webRecognition (snd (try_catch (start_body p r) start_catch w)) = webRecognition w"
  "fst (try_catch (start_body p r) start_catch w) = None"
proof -
  obtain x w' where b: "start_body p r w = (x, w')"
    by (cases "start_body p r w")
  have w': "voiceState w' = voiceState w" "recognizedText w' = recognizedText w"
    "webRecognition w' = webRecognition w"
    using start_body_voiceState [of p r w] by (simp_all add: b)
  show "voiceState (snd (try_catch (start_body p r) start_catch w)) = voiceState w"
    by (cases x) (simp_all add: try_catch_def b w' start_catch_voiceState)
  show "recognizedText (snd (try_catch (start_body p r) start_catch w)) = recognizedText w"
    by (cases x) (simp_all add: try_catch_def b w' start_catch_voiceState)
  show "webRecognition (snd (try_catch (start_body p r) start_catch w)) = webRecognition w"
    by (cases x) (simp_all add: try_catch_def b w' start_catch_voiceState)
  show "fst (try_catch (start_body p r) start_catch w) = None"
    by (cases x) (simp_all add: try_catch_def b start_catch_voiceState)
qed

lemma startListening_frame:
  "voiceState (snd (startListening p r w)) = initial_voiceState"
  "recognizedText (snd (startListening p r w)) = []"
  "webRecognition (snd (startListening p r w)) = webRecognition w"
  "fst (startListening p r w) = None"
  by (simp_all add: startListening_def try_catch_start_frame reset_session_voiceState
      reset_session_recognizedText reset_session_other)

lemma start_body_available:
  "\<not> isWeb p \<or> webRecognition w \<noteq> None \<Longrightarrow>
   start_body p r w = (r, emit (start_primitive p) w)"
  by (auto simp: start_body_def invoke_def start_primitive_def split: option.splits)

lemma startListening_throw:
  assumes "\<not> isWeb p \<or> webRecognition w \<noteq> None"
  shows "startListening p (Some e) w =
     (None, emit (AlertAlert ''Error''
              ''Failed to start voice recognition. Please check microphone permissions.'')
        (emit (ConsoleError ''Error starting voice recognition:'')
          (emit (start_primitive p) (reset_session w))))"
proof -
  from assms have "\<not> isWeb p \<or> webRecognition (reset_session w) \<noteq> None"
    by (simp add: reset_session_other)
  then show ?thesis
    by (simp add: startListening_def try_catch_def start_body_available start_catch_def)
qed

lemma startListening_return:
  assumes "\<not> isWeb p \<or> webRecognition w \<noteq> None"
  shows "startListening p None w = (None, emit (start_primitive p) (reset_session w))"
proof -
  from assms have "\<not> isWeb p \<or> webRecognition (reset_session w) \<noteq> None"
    by (simp add: reset_session_other)
  then show ?thesis
    by (simp add: startListening_def try_catch_def start_body_available)
qed

lemma startListening_disabled:
  "isWeb p \<Longrightarrow> webRecognition w = None \<Longrightarrow>
   startListening p r w =
     (None, emit (AlertAlert ''Error'' ''Speech recognition not available'') (reset_session w))"
  by (simp add: startListening_def try_catch_def start_body_def reset_session_other)

lemma stopListening_disabled:
  "isWeb p \<Longrightarrow> webRecognition w = None \<Longrightarrow> stopListening p r w = (None, w)"
  by (simp add: stopListening_def try_catch_def stop_body_def)

lemma stopListening_cases:
  "stopListening p r w =
     (if isWeb p \<and> webRecognition w = None then (None, w)
      else case r of
             None \<Rightarrow> (None, emit (if isWeb p then WebRecognitionStop else VoiceStop) w)
           | Some e \<Rightarrow>
               (None, emit (ConsoleError ''Error stopping voice recognition:'')
                        (emit (if isWeb p then WebRecognitionStop else VoiceStop) w)))"
  by (auto simp: stopListening_def try_catch_def stop_body_def stop_catch_def invoke_def
      split: option.splits)

lemma handle_event_webRecognition:
  "webRecognition (handle_event p e w) = webRecognition w"
  by (cases e)
     (simp_all add: handler_defs setter_defs Let_def split: option.splits list.splits prod.splits)

lemma handle_event_no_start_primitive:
  "filter is_start_primitive (trace (handle_event p e w)) = filter is_start_primitive (trace w)"
  by (cases e)
     (simp_all add: handler_defs setter_defs Let_def split: option.splits list.splits prod.splits)

lemma end_event_started:
  "is_end_event e \<Longrightarrow> \<not> started (voiceState (handle_event p e w))"
  by (cases e) (simp_all add: onSpeechEnd_def recognition_onend_def setter_defs)

lemma error_event_started:
  "is_error_event e \<Longrightarrow> \<not> started (voiceState (handle_event p e w))"
  by (cases e) (simp_all add: onSpeechError_def recognition_onerror_def setter_defs)

lemma onSpeechError_frame:
  "voiceState (onSpeechError p e w) =
     (voiceState w)\<lparr>error := JSON_stringify p e, started := False\<rparr>"
  "recognizedText (onSpeechError p e w) = recognizedText w"
  by (simp_all add: onSpeechError_def setter_defs)

lemma recognition_onerror_frame:
  "voiceState (recognition_onerror err w) = (voiceState w)\<lparr>error := err, started := False\<rparr>"
  "recognizedText (recognition_onerror err w) = recognizedText w"
  by (simp_all add: recognition_onerror_def setter_defs)

lemma demo_session_state:
  "voiceState (run_events demo_platform demo_session initial_screen) =
     \<lparr>recognized = [], pitch = [], error = [], end_f = [], started = True,
      results = [''book a table please''], partialResults = [''book a table'']\<rparr>"
  "recognizedText (run_events demo_platform demo_session initial_screen) = ''book a table please''"
  by (simp_all add: demo_session_def handler_defs setter_defs initial_screen_def
      initial_voiceState_def)

subsection \<open>The loop of the browser's result handler\<close>

text \<open>The loop computes the two concatenations of the specification: the interim entries
  and the final entries of the range that starts at the resume index.\<close>

lemma scan_results_eq:
  "scan_results rs i a b =
     (a @ concat (map item0_transcript (filter (\<lambda>r. \<not> isFinal r) (drop i rs))),
      b @ concat (map item0_transcript (filter isFinal (drop i rs))))"
proof (induction rs i a b rule: scan_results.induct)
  case (1 rs i a b)
  show ?case
  proof (cases "i < length rs")
    case inside: True
    then have d: "drop i rs = rs ! i # drop (Suc i) rs"
      by (simp add: Cons_nth_drop_Suc)
    show ?thesis
    proof (cases "isFinal (rs ! i)")
      case True
      with inside 1 show ?thesis
        by (subst scan_results.simps) (simp add: d)
    next
      case False
      with inside 1 show ?thesis
        by (subst scan_results.simps) (simp add: d)
    qed
  next
    case False
    then show ?thesis
      by (subst scan_results.simps) simp
  qed
qed

lemma scan_results_spec:
  "scan_results (event_results ev) (resultIndex ev) [] [] =
     (spec_interim_concat ev, spec_final_concat ev)"
  by (simp add: scan_results_eq spec_interim_concat_def spec_final_concat_def spec_new_range_def)

lemma recognition_onresult_explicit:
  "recognition_onresult ev w =
     w\<lparr>recognizedText :=
         (if spec_final_concat ev \<noteq> [] then spec_final_concat ev else recognizedText w),
       voiceState := (voiceState w)
         \<lparr>results :=
            (if spec_final_concat ev \<noteq> [] then [spec_final_concat ev]
             else results (voiceState w)),
          partialResults :=
            (if spec_interim_concat ev \<noteq> [] then [spec_interim_concat ev]
             else partialResults (voiceState w))\<rparr>\<rparr>"
  by (simp add: recognition_onresult_def scan_results_spec setter_defs)

subsection \<open>A screen without any back end\<close>

lemma step_disabled:
  assumes "isWeb p" "webRecognition w = None" "filter is_start_primitive (trace w) = []"
  shows "webRecognition (step p a w) = None
         \<and> filter is_start_primitive (trace (step p a w)) = []"
proof (cases a)
  case (Start r)
  with assms show ?thesis
    by (simp add: startListening_disabled emit_def reset_session_other)
next
  case (Stop r)
  with assms show ?thesis
    by (simp add: stopListening_disabled)
next
  case (Event e)
  with assms show ?thesis
    by (simp add: handle_event_webRecognition handle_event_no_start_primitive)
qed

lemma run_disabled:
  "isWeb p \<Longrightarrow> webRecognition w = None \<Longrightarrow> filter is_start_primitive (trace w) = [] \<Longrightarrow>
   webRecognition (run p acts w) = None
   \<and> filter is_start_primitive (trace (run p acts w)) = []"
proof (induction acts arbitrary: w)
  case Nil
  then show ?case by simp
next
  case (Cons a acts)
  from step_disabled [OF Cons.prems, of a]
  have "webRecognition (step p a w) = None"
    and "filter is_start_primitive (trace (step p a w)) = []"
    by simp_all
  with Cons.IH [of "step p a w"] Cons.prems(1) show ?case
    by simp
qed

lemma useEffect_init_disabled:
  "isWeb p \<Longrightarrow> \<not> webkitSpeechRecognition_in_window p \<Longrightarrow>
   webRecognition (useEffect_init p initial_screen) = None
   \<and> filter is_start_primitive (trace (useEffect_init p initial_screen)) = []"
  by (simp add: useEffect_init_def emit_def initial_screen_def)

section \<open>The claims\<close>

text \<open>
  Claim C1: for every prior state of the session record, \<open>start()\<close> resets \<open>results\<close>,
  \<open>partialResults\<close>, \<open>error\<close>, \<open>end\<close> and \<open>recognized\<close> to their empty baseline before it
  delegates to the back end's start primitive; in particular \<open>end\<close> is always cleared. The
  \<open>try\<close> block, where the primitive is reached, runs from the reset state, and neither the
  block nor its \<open>catch\<close> writes the session record again, whatever the primitive does. With
  a back end present the \<open>try\<close> block is the invocation of that back end's start primitive
  on the reset state: the primitive enters the trace exactly once, right after what the
  trace held before, followed only by the log entry and the alert of the \<open>catch\<close> when it
  throws.
\<close>

theorem start_resets_session:
  "results (voiceState (reset_session w)) = []
   \<and> partialResults (voiceState (reset_session w)) = []
   \<and> error (voiceState (reset_session w)) = []
   \<and> end_f (voiceState (reset_session w)) = []
   \<and> recognized (voiceState (reset_session w)) = []
   \<and> startListening p r w = try_catch (start_body p r) start_catch (reset_session w)
   \<and> voiceState (snd (startListening p r w)) = voiceState (reset_session w)
   \<and> (\<not> isWeb p \<or> webRecognition w \<noteq> None \<longrightarrow>
        start_body p r (reset_session w) = invoke (start_primitive p) r (reset_session w)
        \<and> is_start_primitive (start_primitive p)
        \<and> trace (snd (startListening p r w)) =
            trace w @ start_primitive p #
              (case r of
                 None \<Rightarrow> []
               | Some e \<Rightarrow>
                   [ConsoleError ''Error starting voice recognition:'',
                    AlertAlert ''Error''
                      ''Failed to start voice recognition. Please check microphone permissions.'']))"
proof -
  have delegate: "startListening p r w = try_catch (start_body p r) start_catch (reset_session w)"
    by (simp add: startListening_def)
  have reset: "results (voiceState (reset_session w)) = []
     \<and> partialResults (voiceState (reset_session w)) = []
     \<and> error (voiceState (reset_session w)) = []
     \<and> end_f (voiceState (reset_session w)) = []
     \<and> recognized (voiceState (reset_session w)) = []
     \<and> voiceState (snd (startListening p r w)) = voiceState (reset_session w)"
    using delegate
    by (simp add: try_catch_start_frame reset_session_voiceState initial_voiceState_def)
  have prim: "is_start_primitive (start_primitive p)"
    by (simp add: start_primitive_def)
  have reached: "start_body p r (reset_session w) = invoke (start_primitive p) r (reset_session w)"
    and tr: "trace (snd (startListening p r w)) =
            trace w @ start_primitive p #
              (case r of
                 None \<Rightarrow> []
               | Some e \<Rightarrow>
                   [ConsoleError ''Error starting voice recognition:'',
                    AlertAlert ''Error''
                      ''Failed to start voice recognition. Please check microphone permissions.''])"
    if present: "\<not> isWeb p \<or> webRecognition w \<noteq> None"
  proof -
    from present have "\<not> isWeb p \<or> webRecognition (reset_session w) \<noteq> None"
      by (simp add: reset_session_other)
    then show "start_body p r (reset_session w) = invoke (start_primitive p) r (reset_session w)"
      by (simp add: start_body_available invoke_def)
    show "trace (snd (startListening p r w)) =
            trace w @ start_primitive p #
              (case r of
                 None \<Rightarrow> []
               | Some e \<Rightarrow>
                   [ConsoleError ''Error starting voice recognition:'',
                    AlertAlert ''Error''
                      ''Failed to start voice recognition. Please check microphone permissions.''])"
    proof (cases r)
      case None
      then show ?thesis
        by (simp add: startListening_return [OF present] emit_def reset_session_other)
    next
      case (Some e)
      then show ?thesis
        by (simp add: startListening_throw [OF present] emit_def reset_session_other)
    qed
  qed
  from delegate reset prim reached tr show ?thesis
    by blast
qed

text \<open>A start on the native platform after a session has ended: \<open>end\<close> held the mark and is
  cleared, and the trace ends in the one call of \<open>Voice.start\<close>.\<close>

theorem start_resets_session_witness:
  "\<not> isWeb demo_platform
   \<and> end_f (voiceState (reset_session (onSpeechEnd initial_screen))) = []
   \<and> end_f (voiceState (onSpeechEnd initial_screen)) = CHECK_MARK
   \<and> voiceState (snd (startListening demo_platform None (onSpeechEnd initial_screen)))
       = initial_voiceState
   \<and> start_body demo_platform None (reset_session (onSpeechEnd initial_screen)) =
       invoke (VoiceStart ''en-US'') None (reset_session (onSpeechEnd initial_screen))
   \<and> trace (snd (startListening demo_platform None (onSpeechEnd initial_screen))) =
       [ConsoleLog ''onSpeechEnd: '', StopPulseAnimation, VoiceStart ''en-US'']"
proof -
  have h: "\<not> isWeb demo_platform"
    by (simp add: demo_platform_def)
  then have present: "\<not> isWeb demo_platform \<or> webRecognition (onSpeechEnd initial_screen) \<noteq> None"
    by simp
  have sp: "start_primitive demo_platform = VoiceStart ''en-US''"
    by (simp add: start_primitive_def h)
  define w0 where "w0 = onSpeechEnd initial_screen"
  note t = start_resets_session [of "onSpeechEnd initial_screen" demo_platform None,
      folded w0_def]
  have a: "end_f (voiceState (reset_session w0)) = []"
    using t by blast
  have b: "end_f (voiceState w0) = CHECK_MARK"
    by (simp add: w0_def onSpeechEnd_def setter_defs)
  have c: "voiceState (snd (startListening demo_platform None w0)) = voiceState (reset_session w0)"
    using t by blast
  note ti = t [THEN conjunct2, THEN conjunct2, THEN conjunct2, THEN conjunct2, THEN conjunct2,
      THEN conjunct2, THEN conjunct2, THEN mp, OF present [folded w0_def]]
  have d: "start_body demo_platform None (reset_session w0) =
      invoke (start_primitive demo_platform) None (reset_session w0)"
    by (rule ti [THEN conjunct1])
  have e: "trace (snd (startListening demo_platform None w0)) =
      trace w0 @ [start_primitive demo_platform]"
    using ti [THEN conjunct2, THEN conjunct2] by simp
  have tw: "trace w0 = [ConsoleLog ''onSpeechEnd: '', StopPulseAnimation]"
    by (simp add: w0_def onSpeechEnd_def setter_defs initial_screen_def)
  have e': "trace (snd (startListening demo_platform None w0)) =
      [ConsoleLog ''onSpeechEnd: '', StopPulseAnimation, VoiceStart ''en-US'']"
    by (simp add: e tw sp)
  have c': "voiceState (snd (startListening demo_platform None w0)) = initial_voiceState"
    using c by (simp only: reset_session_voiceState)
  have d': "start_body demo_platform None (reset_session w0) =
      invoke (VoiceStart ''en-US'') None (reset_session w0)"
    using d by (simp only: sp)
  from h a b c' d' e' show ?thesis
    unfolding w0_def by blast
qed

text \<open>
  Claim C2: for every sequence of back-end events, immediately after an end event or an
  error event of either back end has been processed, \<open>started\<close> is false.
\<close>

theorem started_false_after_end_or_error:
  "is_end_event e \<or> is_error_event e \<Longrightarrow>
   \<not> started (voiceState (run_events p (es @ [e]) w))"
  by (auto simp: run_events_append end_event_started error_event_started)

text \<open>In the browser: listening after \<open>onstart\<close>, no longer after \<open>onend\<close>.\<close>

theorem started_false_after_end_or_error_witness:
  "(is_end_event WebEnd \<or> is_error_event WebEnd)
   \<and> started (voiceState (run_events demo_web_platform [WebStart] initial_screen))
   \<and> \<not> started (voiceState (run_events demo_web_platform ([WebStart] @ [WebEnd]) initial_screen))"
  using started_false_after_end_or_error [of WebEnd demo_web_platform "[WebStart]" initial_screen]
  by (simp add: recognition_onstart_def setter_defs)

text \<open>
  Claim C3: the rule for the end event is the same on both back ends: \<open>end\<close> becomes the
  ended mark and \<open>started\<close> becomes false. The native handler \<open>onSpeechEnd\<close> does both. The
  browser's \<open>onend\<close> only clears \<open>started\<close>: it leaves \<open>end\<close> as it was, so after a browser
  session that started from the initial state and ended, \<open>end\<close> is still empty.
\<close>

theorem browser_end_event_leaves_end_unset:
  "end_f (voiceState (recognition_onend w)) = end_f (voiceState w)
   \<and> end_f (voiceState (handle_event p WebEnd (handle_event p WebStart initial_screen))) = []
   \<and> end_f (voiceState (handle_event p SpeechEnd (handle_event p SpeechStart initial_screen)))
       = CHECK_MARK
   \<and> CHECK_MARK \<noteq> []"
  by (simp add: handler_defs setter_defs initial_screen_def initial_voiceState_def CHECK_MARK_def)

text \<open>
  Claim C4, as stated: on every final-results event \<open>results\<close> is replaced with the event's
  candidate list, an empty list included. The native handler guards the replacement with
  \<open>e.value && e.value.length > 0\<close>: a final-results event with an empty list after one that
  carried \<open>hello\<close> leaves \<open>results\<close> at \<open>[hello]\<close>.
\<close>

theorem final_results_empty_list_counterexample:
  "results (voiceState (onSpeechResults (Some [])
      (onSpeechResults (Some [''hello'']) initial_screen))) = [''hello'']
   \<and> results (voiceState (onSpeechResults (Some [])
      (onSpeechResults (Some [''hello'']) initial_screen))) \<noteq> []"
  by (simp add: onSpeechResults_def setter_defs)

text \<open>
  Claim C4, amended: on a final-results event whose candidate list is present and non-empty,
  \<open>results\<close> is replaced with that list and its first element is published as the display
  transcript; on an absent or empty list the guard skips both updates, and the session
  record and the display transcript keep their values. In the browser a final-results
  update happens only for a non-empty final transcript \<open>F\<close>: then it stores \<open>[F]\<close> and
  publishes \<open>F\<close>; when \<open>F\<close> is empty, \<open>results\<close> and the display transcript keep their
  values.
\<close>

theorem final_results_guarded:
  "(v = Some (x # xs) \<longrightarrow>
      results (voiceState (onSpeechResults v w)) = x # xs
      \<and> recognizedText (onSpeechResults v w) = x)
   \<and> (v = None \<or> v = Some [] \<longrightarrow>
      voiceState (onSpeechResults v w) = voiceState w
      \<and> recognizedText (onSpeechResults v w) = recognizedText w)
   \<and> (spec_final_concat ev \<noteq> [] \<longrightarrow>
      results (voiceState (recognition_onresult ev w)) = [spec_final_concat ev]
      \<and> recognizedText (recognition_onresult ev w) = spec_final_concat ev)
   \<and> (spec_final_concat ev = [] \<longrightarrow>
      results (voiceState (recognition_onresult ev w)) = results (voiceState w)
      \<and> recognizedText (recognition_onresult ev w) = recognizedText w)"
  by (auto simp: onSpeechResults_def setter_defs recognition_onresult_explicit)

text \<open>Two native events (a list of two candidates; an empty list after \<open>hello\<close>) and two
  browser invocations after the final transcript \<open>hello\<close> was stored: one with only an
  interim entry, which keeps it, and one with the final entry \<open>world\<close>, which replaces it.\<close>

theorem final_results_guarded_witness:
  "results (voiceState (onSpeechResults (Some [''book a table please'', ''book a cable''])
      initial_screen)) = [''book a table please'', ''book a cable'']
   \<and> recognizedText (onSpeechResults (Some [''book a table please'', ''book a cable''])
      initial_screen) = ''book a table please''
   \<and> voiceState (onSpeechResults (Some []) (onSpeechResults (Some [''hello'']) initial_screen))
      = voiceState (onSpeechResults (Some [''hello'']) initial_screen)
   \<and> spec_final_concat demo_interim_event = []
   \<and> results (voiceState (recognition_onresult demo_interim_event
        (recognition_onresult demo_result_event initial_screen))) = [''hello'']
   \<and> recognizedText (recognition_onresult demo_interim_event
        (recognition_onresult demo_result_event initial_screen)) = ''hello''
   \<and> spec_final_concat demo_final_event = ''world''
   \<and> results (voiceState (recognition_onresult demo_final_event
        (recognition_onresult demo_result_event initial_screen))) = [''world'']
   \<and> recognizedText (recognition_onresult demo_final_event
        (recognition_onresult demo_result_event initial_screen)) = ''world''"
proof -
  define w1 where "w1 = recognition_onresult demo_result_event initial_screen"
  have n1: "results (voiceState (onSpeechResults (Some [''book a table please'', ''book a cable''])
      initial_screen)) = [''book a table please'', ''book a cable'']
   \<and> recognizedText (onSpeechResults (Some [''book a table please'', ''book a cable''])
      initial_screen) = ''book a table please''"
    using final_results_guarded [of "Some [''book a table please'', ''book a cable'']"
      "''book a table please''" "[''book a cable'']" initial_screen]
    by simp
  have n2: "voiceState (onSpeechResults (Some []) (onSpeechResults (Some [''hello'']) initial_screen))
      = voiceState (onSpeechResults (Some [''hello'']) initial_screen)"
    using final_results_guarded [of "Some []" _ _
        "onSpeechResults (Some [''hello'']) initial_screen"]
    by simp
  have fe: "spec_final_concat demo_result_event = ''hello''"
    by (simp add: spec_final_concat_def spec_new_range_def demo_result_event_def)
  have w1r: "results (voiceState w1) = [''hello'']" "recognizedText w1 = ''hello''"
    using final_results_guarded [of _ _ _ initial_screen demo_result_event]
    by (simp_all add: fe w1_def)
  have fi: "spec_final_concat demo_interim_event = []"
    by (simp add: spec_final_concat_def spec_new_range_def demo_interim_event_def)
  have b1: "results (voiceState (recognition_onresult demo_interim_event w1)) = [''hello'']"
    "recognizedText (recognition_onresult demo_interim_event w1) = ''hello''"
    using final_results_guarded [of _ _ _ w1 demo_interim_event] fi w1r
    by simp_all
  have ff: "spec_final_concat demo_final_event = ''world''"
    by (simp add: spec_final_concat_def spec_new_range_def demo_final_event_def)
  have b2: "results (voiceState (recognition_onresult demo_final_event w1)) = [''world'']"
    "recognizedText (recognition_onresult demo_final_event w1) = ''world''"
    using final_results_guarded [of _ _ _ w1 demo_final_event]
    by (simp_all add: ff)
  from n1 n2 fi b1 ff b2 show ?thesis
    unfolding w1_def by blast
qed

text \<open>
  Claim C5: one invocation of the browser's \<open>onresult\<close>, whose newly available range has
  final entries concatenating to \<open>F\<close> and interim entries concatenating to \<open>I\<close>, acts as
  exactly one final-results event carrying \<open>[F]\<close> when \<open>F\<close> is non-empty (none otherwise)
  followed by exactly one partial-results event carrying \<open>[I]\<close> when \<open>I\<close> is non-empty (none
  otherwise). The session record and the display transcript after the handler are those
  after folding the event list \<open>spec_browser_emits F I\<close> with the handlers of these two
  events (the traces differ: only the native handlers write to the console); the last
  conjunct spells the resulting state out.
\<close>

theorem onresult_emits_per_partition:
  "voiceState (recognition_onresult ev w) =
     voiceState (run_events p
       (spec_browser_emits (spec_final_concat ev) (spec_interim_concat ev)) w)
   \<and> recognizedText (recognition_onresult ev w) =
     recognizedText (run_events p
       (spec_browser_emits (spec_final_concat ev) (spec_interim_concat ev)) w)
   \<and> recognition_onresult ev w =
       w\<lparr>recognizedText :=
           (if spec_final_concat ev \<noteq> [] then spec_final_concat ev else recognizedText w),
         voiceState := (voiceState w)
           \<lparr>results :=
              (if spec_final_concat ev \<noteq> [] then [spec_final_concat ev]
               else results (voiceState w)),
            partialResults :=
              (if spec_interim_concat ev \<noteq> [] then [spec_interim_concat ev]
               else partialResults (voiceState w))\<rparr>\<rparr>"
proof -
  have explicit: "recognition_onresult ev w =
       w\<lparr>recognizedText :=
           (if spec_final_concat ev \<noteq> [] then spec_final_concat ev else recognizedText w),
         voiceState := (voiceState w)
           \<lparr>results :=
              (if spec_final_concat ev \<noteq> [] then [spec_final_concat ev]
               else results (voiceState w)),
            partialResults :=
              (if spec_interim_concat ev \<noteq> [] then [spec_interim_concat ev]
               else partialResults (voiceState w))\<rparr>\<rparr>"
    by (rule recognition_onresult_explicit)
  have vs: "voiceState (recognition_onresult ev w) =
     voiceState (run_events p
       (spec_browser_emits (spec_final_concat ev) (spec_interim_concat ev)) w)"
    by (simp add: explicit spec_browser_emits_def onSpeechResults_def
        onSpeechPartialResults_def setter_defs)
  have rt: "recognizedText (recognition_onresult ev w) =
     recognizedText (run_events p
       (spec_browser_emits (spec_final_concat ev) (spec_interim_concat ev)) w)"
    by (simp add: explicit spec_browser_emits_def onSpeechResults_def
        onSpeechPartialResults_def setter_defs)
  from vs rt explicit show ?thesis by blast
qed

text \<open>The scenario with the final entry \<open>hello\<close> and the interim entry \<open>wor\<close>.\<close>

theorem onresult_emits_per_partition_witness:
  "spec_browser_emits (spec_final_concat demo_result_event) (spec_interim_concat demo_result_event)
     = [SpeechResults (Some [''hello'']), SpeechPartialResults (Some [''wor''])]
   \<and> results (voiceState (recognition_onresult demo_result_event initial_screen)) = [''hello'']
   \<and> partialResults (voiceState (recognition_onresult demo_result_event initial_screen))
       = [''wor'']
   \<and> recognizedText (recognition_onresult demo_result_event initial_screen) = ''hello''"
  using onresult_emits_per_partition [of demo_result_event initial_screen demo_web_platform]
  by (simp add: spec_browser_emits_def spec_final_concat_def spec_interim_concat_def
      spec_new_range_def demo_result_event_def onSpeechResults_def onSpeechPartialResults_def
      setter_defs)

text \<open>
  Claim C6: when the probe finds no back end (the platform is the web and the window has no
  \<open>webkitSpeechRecognition\<close>; off the web the component takes the native module to be
  there), then after mounting and any number of presses and events every \<open>start()\<close> ends in
  the notice \<open>Speech recognition not available\<close> and no start primitive of either back end
  is ever invoked.
\<close>

theorem disabled_start_unsupported:
  assumes "isWeb p" and "\<not> webkitSpeechRecognition_in_window p"
  shows "webRecognition (run p acts (useEffect_init p initial_screen)) = None
     \<and> startListening p r (run p acts (useEffect_init p initial_screen)) =
         (None, emit (AlertAlert ''Error'' ''Speech recognition not available'')
                  (reset_session (run p acts (useEffect_init p initial_screen))))
     \<and> filter is_start_primitive
         (trace (snd (startListening p r (run p acts (useEffect_init p initial_screen))))) = []"
proof -
  let ?w = "run p acts (useEffect_init p initial_screen)"
  from useEffect_init_disabled [OF assms]
  have inv: "webRecognition ?w = None" "filter is_start_primitive (trace ?w) = []"
    using run_disabled [OF assms(1), of "useEffect_init p initial_screen" acts] by simp_all
  have st: "startListening p r ?w =
      (None, emit (AlertAlert ''Error'' ''Speech recognition not available'') (reset_session ?w))"
    by (rule startListening_disabled [OF assms(1) inv(1)])
  have "filter is_start_primitive (trace (snd (startListening p r ?w))) = []"
    by (simp add: st emit_def reset_session_other inv(2))
  with inv(1) st show ?thesis by blast
qed

theorem disabled_start_unsupported_witness:
  "isWeb demo_disabled_platform
   \<and> \<not> webkitSpeechRecognition_in_window demo_disabled_platform
   \<and> trace (snd (startListening demo_disabled_platform (Some (Exn ''boom''))
        (run demo_disabled_platform [Start None, Stop None]
           (useEffect_init demo_disabled_platform initial_screen)))) =
       [AlertAlert ''Speech Recognition Not Supported''
          ''Your browser does not support speech recognition. Please use Chrome or Safari.'',
        AlertAlert ''Error'' ''Speech recognition not available'',
        AlertAlert ''Error'' ''Speech recognition not available'']"
proof -
  have h1: "isWeb demo_disabled_platform"
    by (simp add: demo_disabled_platform_def)
  have h2: "\<not> webkitSpeechRecognition_in_window demo_disabled_platform"
    by (simp add: demo_disabled_platform_def)
  define w1 where
    "w1 = run demo_disabled_platform [Start None, Stop None]
           (useEffect_init demo_disabled_platform initial_screen)"
  note t = disabled_start_unsupported [OF h1 h2, of "[Start None, Stop None]"
      "Some (Exn ''boom'')", folded w1_def]
  have st: "startListening demo_disabled_platform (Some (Exn ''boom'')) w1 =
      (None, emit (AlertAlert ''Error'' ''Speech recognition not available'')
         (reset_session w1))"
    using t by blast
  have w0: "webRecognition (useEffect_init demo_disabled_platform initial_screen) = None"
    "trace (useEffect_init demo_disabled_platform initial_screen) =
       [AlertAlert ''Speech Recognition Not Supported''
          ''Your browser does not support speech recognition. Please use Chrome or Safari.'']"
    by (simp_all add: useEffect_init_def demo_disabled_platform_def emit_def initial_screen_def)
  have tr: "trace w1 =
       [AlertAlert ''Speech Recognition Not Supported''
          ''Your browser does not support speech recognition. Please use Chrome or Safari.'',
        AlertAlert ''Error'' ''Speech recognition not available'']"
    unfolding w1_def
    by (simp add: startListening_disabled stopListening_disabled h1 w0 reset_session_other
        emit_def)
  have "trace (snd (startListening demo_disabled_platform (Some (Exn ''boom'')) w1)) =
       [AlertAlert ''Speech Recognition Not Supported''
          ''Your browser does not support speech recognition. Please use Chrome or Safari.'',
        AlertAlert ''Error'' ''Speech recognition not available'',
        AlertAlert ''Error'' ''Speech recognition not available'']"
    by (simp add: st emit_def reset_session_other tr)
  with h1 h2 show ?thesis
    unfolding w1_def by blast
qed

text \<open>
  Claim C7: \<open>stop()\<close> never raises to its caller, in particular when no session is active:
  whatever the stop primitive throws is caught by the \<open>catch\<close>, which logs it to the console.
\<close>

theorem stop_never_raises:
  "fst (stopListening p r w) = None
   \<and> (\<not> isWeb p \<longrightarrow>
        snd (stopListening p (Some e) w) =
          emit (ConsoleError ''Error stopping voice recognition:'') (emit VoiceStop w))
   \<and> (isWeb p \<and> webRecognition w \<noteq> None \<longrightarrow>
        snd (stopListening p (Some e) w) =
          emit (ConsoleError ''Error stopping voice recognition:'')
            (emit WebRecognitionStop w))"
  by (auto simp: stopListening_cases split: option.splits)

text \<open>The native stop primitive throwing on the initial, idle screen.\<close>

theorem stop_never_raises_witness:
  "\<not> started (voiceState initial_screen)
   \<and> \<not> isWeb demo_platform
   \<and> stopListening demo_platform (Some (Exn ''not listening'')) initial_screen =
       (None, initial_screen\<lparr>trace :=
          [VoiceStop, ConsoleError ''Error stopping voice recognition:'']\<rparr>)"
proof -
  have h: "\<not> isWeb demo_platform"
    by (simp add: demo_platform_def)
  note t = stop_never_raises [of demo_platform "Some (Exn ''not listening'')" initial_screen
      "Exn ''not listening''"]
  have a: "fst (stopListening demo_platform (Some (Exn ''not listening'')) initial_screen) = None"
    using t by blast
  have b: "snd (stopListening demo_platform (Some (Exn ''not listening'')) initial_screen) =
      emit (ConsoleError ''Error stopping voice recognition:'') (emit VoiceStop initial_screen)"
    using t h by blast
  have c: "emit (ConsoleError ''Error stopping voice recognition:'') (emit VoiceStop initial_screen)
      = initial_screen\<lparr>trace := [VoiceStop, ConsoleError ''Error stopping voice recognition:'']\<rparr>"
    by (simp add: emit_def initial_screen_def)
  have d: "\<not> started (voiceState initial_screen)"
    by (simp add: initial_screen_def initial_voiceState_def)
  from a b c have "stopListening demo_platform (Some (Exn ''not listening'')) initial_screen =
       (None, initial_screen\<lparr>trace :=
          [VoiceStop, ConsoleError ''Error stopping voice recognition:'']\<rparr>)"
    by (simp add: prod_eq_iff)
  with d h show ?thesis by blast
qed

text \<open>
  Claim C8: \<open>stop()\<close> modifies no field of the session record and not the display
  transcript; the reset happens in \<open>start()\<close> only, so the transcript of the last session
  stays readable after \<open>stop()\<close> until the next \<open>start()\<close>, which clears it.
\<close>

theorem stop_leaves_session_untouched:
  "voiceState (snd (stopListening p r w)) = voiceState w
   \<and> recognizedText (snd (stopListening p r w)) = recognizedText w
   \<and> voiceState (snd (startListening p r' (snd (stopListening p r w)))) = initial_voiceState
   \<and> recognizedText (snd (startListening p r' (snd (stopListening p r w)))) = []"
  by (simp add: stopListening_cases emit_def startListening_frame split: option.splits)

theorem stop_leaves_session_untouched_witness:
  "results (voiceState (snd (stopListening demo_platform None
      (run_events demo_platform demo_session initial_screen)))) = [''book a table please'']
   \<and> started (voiceState (snd (stopListening demo_platform None
      (run_events demo_platform demo_session initial_screen))))
   \<and> recognizedText (snd (stopListening demo_platform None
      (run_events demo_platform demo_session initial_screen))) = ''book a table please''"
  using stop_leaves_session_untouched [of demo_platform None
      "run_events demo_platform demo_session initial_screen" None]
  by (simp add: demo_session_state)

text \<open>
  Claim C9: when a back end is there and its start primitive throws during \<open>start()\<close>, the
  session record is left exactly at the baseline of the reset, the failure is logged and
  an alert is shown, nothing is raised to the caller, and a further \<open>start()\<close> reaches the
  primitive again.
\<close>

theorem start_failure_keeps_baseline:
  assumes "\<not> isWeb p \<or> webRecognition w \<noteq> None"
  shows "fst (startListening p (Some e) w) = None
     \<and> voiceState (snd (startListening p (Some e) w)) = voiceState (reset_session w)
     \<and> voiceState (snd (startListening p (Some e) w)) = initial_voiceState
     \<and> recognizedText (snd (startListening p (Some e) w)) = []
     \<and> trace (snd (startListening p (Some e) w)) =
         trace w @ [start_primitive p, ConsoleError ''Error starting voice recognition:'',
           AlertAlert ''Error''
             ''Failed to start voice recognition. Please check microphone permissions.'']
     \<and> startListening p None (snd (startListening p (Some e) w)) =
         (None, emit (start_primitive p) (snd (startListening p (Some e) w)))"
proof -
  let ?w' = "snd (startListening p (Some e) w)"
  have tr: "trace ?w' =
         trace w @ [start_primitive p, ConsoleError ''Error starting voice recognition:'',
           AlertAlert ''Error''
             ''Failed to start voice recognition. Please check microphone permissions.'']"
    by (simp add: startListening_throw [OF assms] emit_def reset_session_other)
  have wr: "\<not> isWeb p \<or> webRecognition ?w' \<noteq> None"
    using assms by (simp add: startListening_frame)
  have idem: "reset_session ?w' = ?w'"
    by (rule reset_session_idem) (simp_all add: startListening_frame)
  have retry: "startListening p None ?w' = (None, emit (start_primitive p) ?w')"
    using startListening_return [OF wr] by (simp only: idem)
  from tr retry show ?thesis
    by (simp add: startListening_frame reset_session_voiceState)
qed

theorem start_failure_keeps_baseline_witness:
  "\<not> isWeb demo_platform
   \<and> voiceState (snd (startListening demo_platform (Some (Exn ''permission denied''))
        (run_events demo_platform demo_session initial_screen))) = initial_voiceState
   \<and> trace (snd (startListening demo_platform None
        (snd (startListening demo_platform (Some (Exn ''permission denied'')) initial_screen)))) =
       [VoiceStart ''en-US'', ConsoleError ''Error starting voice recognition:'',
        AlertAlert ''Error''
          ''Failed to start voice recognition. Please check microphone permissions.'',
        VoiceStart ''en-US'']"
proof -
  have h: "\<not> isWeb demo_platform"
    by (simp add: demo_platform_def)
  then have h1: "\<not> isWeb demo_platform
      \<or> webRecognition (run_events demo_platform demo_session initial_screen) \<noteq> None"
    and h2: "\<not> isWeb demo_platform \<or> webRecognition initial_screen \<noteq> None"
    by simp_all
  have a: "voiceState (snd (startListening demo_platform (Some (Exn ''permission denied''))
        (run_events demo_platform demo_session initial_screen))) = initial_voiceState"
    using start_failure_keeps_baseline [OF h1, of "Exn ''permission denied''"] by blast
  define w' where
    "w' = snd (startListening demo_platform (Some (Exn ''permission denied'')) initial_screen)"
  note t = start_failure_keeps_baseline [OF h2, of "Exn ''permission denied''", folded w'_def]
  have tr: "trace w' = trace initial_screen @
      [start_primitive demo_platform, ConsoleError ''Error starting voice recognition:'',
       AlertAlert ''Error''
         ''Failed to start voice recognition. Please check microphone permissions.'']"
    using t by blast
  have retry: "startListening demo_platform None w' =
      (None, emit (start_primitive demo_platform) w')"
    using t by blast
  have "trace (snd (startListening demo_platform None w')) =
       [VoiceStart ''en-US'', ConsoleError ''Error starting voice recognition:'',
        AlertAlert ''Error''
          ''Failed to start voice recognition. Please check microphone permissions.'',
        VoiceStart ''en-US'']"
    by (simp add: retry emit_def tr start_primitive_def h initial_screen_def)
  with h a show ?thesis
    unfolding w'_def by blast
qed

text \<open>
  Claim C10: an error event of either back end modifies only \<open>error\<close> and \<open>started\<close>:
  \<open>results\<close>, \<open>partialResults\<close>, \<open>recognized\<close>, \<open>pitch\<close> and \<open>end\<close> keep their values, as does
  the display transcript.
\<close>

theorem error_event_touches_only_error_and_started:
  assumes "is_error_event e"
  shows "voiceState (handle_event p e w) =
       (voiceState w)\<lparr>error := error (voiceState (handle_event p e w)), started := False\<rparr>
     \<and> results (voiceState (handle_event p e w)) = results (voiceState w)
     \<and> partialResults (voiceState (handle_event p e w)) = partialResults (voiceState w)
     \<and> recognized (voiceState (handle_event p e w)) = recognized (voiceState w)
     \<and> pitch (voiceState (handle_event p e w)) = pitch (voiceState w)
     \<and> end_f (voiceState (handle_event p e w)) = end_f (voiceState w)
     \<and> recognizedText (handle_event p e w) = recognizedText w"
  using assms
  by (cases e) (simp_all add: onSpeechError_frame recognition_onerror_frame)

theorem error_event_touches_only_error_and_started_witness:
  "is_error_event (SpeechError (Some \<lparr>code = Some ''7'', message = Some ''No match''\<rparr>))
   \<and> results (voiceState (handle_event demo_platform
        (SpeechError (Some \<lparr>code = Some ''7'', message = Some ''No match''\<rparr>))
        (run_events demo_platform demo_session initial_screen))) = [''book a table please'']
   \<and> partialResults (voiceState (handle_event demo_platform
        (SpeechError (Some \<lparr>code = Some ''7'', message = Some ''No match''\<rparr>))
        (run_events demo_platform demo_session initial_screen))) = [''book a table'']
   \<and> recognizedText (handle_event demo_platform
        (SpeechError (Some \<lparr>code = Some ''7'', message = Some ''No match''\<rparr>))
        (run_events demo_platform demo_session initial_screen)) = ''book a table please''"
proof -
  have h: "is_error_event (SpeechError (Some \<lparr>code = Some ''7'', message = Some ''No match''\<rparr>))"
    by simp
  note t = error_event_touches_only_error_and_started [OF h, of demo_platform
      "run_events demo_platform demo_session initial_screen"]
  have a: "results (voiceState (handle_event demo_platform
        (SpeechError (Some \<lparr>code = Some ''7'', message = Some ''No match''\<rparr>))
        (run_events demo_platform demo_session initial_screen))) =
      results (voiceState (run_events demo_platform demo_session initial_screen))"
    using t by blast
  have b: "partialResults (voiceState (handle_event demo_platform
        (SpeechError (Some \<lparr>code = Some ''7'', message = Some ''No match''\<rparr>))
        (run_events demo_platform demo_session initial_screen))) =
      partialResults (voiceState (run_events demo_platform demo_session initial_screen))"
    using t by blast
  have c: "recognizedText (handle_event demo_platform
        (SpeechError (Some \<lparr>code = Some ''7'', message = Some ''No match''\<rparr>))
        (run_events demo_platform demo_session initial_screen)) =
      recognizedText (run_events demo_platform demo_session initial_screen)"
    using t by blast
  from h a b c show ?thesis
    by (simp only: demo_session_state VoiceState.simps)
qed

end
